theory Spec2Isabelle
  imports Main "HOL-Library.Word" "HOL-Library.List_Lexorder" "HOL-Library.Char_ord"
begin

section \<open>Package auth: minting custom tokens and verifying ID tokens\<close>

text \<open>
  A shallow embedding of \<^verbatim>\<open>auth/auth.go\<close>. Go's \<^verbatim>\<open>int64\<close> is a 64-bit word read as
  two's complement: \<open>+\<close> and \<open>*\<close> wrap around, \<open><s\<close> is the signed comparison.
  A Go \<^verbatim>\<open>string\<close> is a list of bytes, so \<^verbatim>\<open>len(s)\<close> is \<open>length s\<close>. A
  \<^verbatim>\<open>map[string]interface{}\<close> is a partial function from strings to values of a type
  \<open>'v\<close> (the nil map is the empty map). A pair \<^verbatim>\<open>(T, error)\<close> is a sum \<open>error + T\<close>,
  and a bare \<^verbatim>\<open>error\<close> result is an \<open>error option\<close> (\<open>None\<close> for nil).
\<close>

type_synonym int64 = "64 word"

subsection \<open>Errors\<close>

text \<open>
  \<^verbatim>\<open>errors.New(msg)\<close>, \<^verbatim>\<open>fmt.Errorf(format, args...)\<close> and
  \<^verbatim>\<open>internal.Error(code, msg)\<close> are kept as constructors: an error built by
  \<^verbatim>\<open>fmt.Errorf\<close> is its format string with its arguments, each tagged with the verb
  that prints it (\<^verbatim>\<open>%q\<close>, \<^verbatim>\<open>%s\<close>, \<^verbatim>\<open>%d\<close>). Indexing a slice out of range panics;
  the panic is a value of the same type.
\<close>

datatype fmt_arg = Q string | S string | D int64

datatype error =
    errors_New string
  | fmt_Errorf string "fmt_arg list"
  | internal_Error string string
  | runtime_panic string

subsection \<open>Constants\<close>

definition firebaseAudience :: string where
  "firebaseAudience =
     ''https://identitytoolkit.googleapis.com/google.identity.identitytoolkit.v1.IdentityToolkit''"

definition idTokenCertURL :: string where
  "idTokenCertURL =
     ''https://www.googleapis.com/robot/v1/metadata/x509/securetoken@system.gserviceaccount.com''"

definition issuerPrefix :: string where
  "issuerPrefix = ''https://securetoken.google.com/''"

definition tokenExpSeconds :: int64 where
  "tokenExpSeconds = 3600"

definition reservedClaims :: "string list" where
  "reservedClaims =
     [''acr'', ''amr'', ''at_hash'', ''aud'', ''auth_time'', ''azp'', ''cnf'', ''c_hash'',
      ''exp'', ''firebase'', ''iat'', ''iss'', ''jti'', ''nbf'', ''nonce'', ''sub'']"

text \<open>The names deleted from the generic claim map (the loop at lines 237-239).\<close>

definition standardClaims :: "string list" where
  "standardClaims = [''iss'', ''aud'', ''exp'', ''iat'', ''sub'', ''uid'']"

subsection \<open>Data\<close>

record 'v Token =
  Issuer :: string
  Audience :: string
  Expires :: int64
  IssuedAt :: int64
  Subject :: string
  UID :: string
  Claims :: "string \<rightharpoonup> 'v"

text \<open>
  The signer interface: \<^verbatim>\<open>Email\<close> takes only the context, so a signer's answer to it
  is a value; \<^verbatim>\<open>Sign\<close> maps the bytes to sign to a signature or an error.
\<close>

record cryptoSigner =
  Email :: "error + string"
  Sign :: "string \<Rightarrow> error + string"

text \<open>
  The struct \<^verbatim>\<open>Client\<close>. Its field \<^verbatim>\<open>is\<close> is written \<open>is'\<close>; the identity toolkit
  service and the key source are type parameters.
\<close>

record ('i, 'k) Client =
  is' :: 'i
  ks :: 'k
  projectID :: string
  signer :: cryptoSigner
  version :: string

text \<open>
  The types \<^verbatim>\<open>jwtHeader\<close>, \<^verbatim>\<open>customToken\<close>, \<^verbatim>\<open>jwtInfo\<close> and \<^verbatim>\<open>UserRecord\<close> are declared
  in other files of the package. They are given here with the fields that
  \<^verbatim>\<open>auth.go\<close> reads and writes; a field that a composite literal of \<^verbatim>\<open>auth.go\<close> leaves
  out has Go's zero value (the empty string for \<^verbatim>\<open>KeyID\<close>). The fields \<^verbatim>\<open>UID\<close> and
  \<^verbatim>\<open>Claims\<close> of \<^verbatim>\<open>customToken\<close> are written \<open>UID_ct\<close> and \<open>Claims_ct\<close>.
\<close>

record jwtHeader =
  Algorithm :: string
  Type :: string
  KeyID :: string

record 'v customToken =
  Iss :: string
  Sub :: string
  Aud :: string
  UID_ct :: string
  Iat :: int64
  Exp :: int64
  Claims_ct :: "string \<rightharpoonup> 'v"

record 'v jwtInfo =
  header :: jwtHeader
  payload :: "'v customToken"

record UserRecord =
  TokensValidAfterMillis :: int64

subsection \<open>The rest of the package\<close>

text \<open>
  \<^verbatim>\<open>auth.go\<close> calls functions that the package defines in other files: the method
  \<^verbatim>\<open>Token\<close> of \<^verbatim>\<open>jwtInfo\<close> (encode and sign), \<^verbatim>\<open>verifyToken\<close> (the signature check
  against the key source), \<^verbatim>\<open>decode\<close> (one segment into a header, into a
  \<^verbatim>\<open>Token\<close>, or into a generic map) and the method \<^verbatim>\<open>GetUser\<close> of the client; it also
  uses the error code \<^verbatim>\<open>idTokenRevoked\<close>. They are parameters of the model, collected
  in one record, so every theorem below holds for any implementation of them.
\<close>

record ('i, 'k, 'v) package =
  jwtInfo_Token :: "'v jwtInfo \<Rightarrow> cryptoSigner \<Rightarrow> error + string"
  verifyToken :: "string \<Rightarrow> 'k \<Rightarrow> error option"
  decode_jwtHeader :: "string \<Rightarrow> error + jwtHeader"
  decode_Token :: "string \<Rightarrow> error + 'v Token"
  decode_claims :: "string \<Rightarrow> error + (string \<rightharpoonup> 'v)"
  GetUser :: "('i, 'k) Client \<Rightarrow> string \<Rightarrow> error + UserRecord"
  idTokenRevoked :: string

text \<open>
  The package variable \<^verbatim>\<open>clk\<close> is read through \<^verbatim>\<open>clk.Now().Unix()\<close>. A clock is the
  sequence of its readings during one operation: \<open>clk n\<close> is what the call number
  \<open>n\<close> (from 0) returns. \<^verbatim>\<open>CustomTokenWithClaims\<close> reads the clock once;
  \<^verbatim>\<open>VerifyIDToken\<close> reads it once for the issued-at check and once more for the expiry
  check.
\<close>

type_synonym clock = "nat \<Rightarrow> int64"

subsection \<open>Library functions\<close>

text \<open>
  \<^verbatim>\<open>strings.Split(s, sep)\<close> for a separator of one byte (\<^verbatim>\<open>auth.go\<close> splits at
  \<^verbatim>\<open>"."\<close>): the pieces between the separators, one piece more than there are
  separators.
\<close>

fun strings_Split :: "string \<Rightarrow> char \<Rightarrow> string list" where
  "strings_Split [] sep = [[]]"
| "strings_Split (c # cs) sep =
     (if c = sep then [] # strings_Split cs sep
      else (case strings_Split cs sep of
              [] \<Rightarrow> [[c]]
            | w # ws \<Rightarrow> (c # w) # ws))"

fun strings_Join :: "string list \<Rightarrow> string \<Rightarrow> string" where
  "strings_Join [] sep = []"
| "strings_Join [x] sep = x"
| "strings_Join (x # y # ys) sep = x @ sep @ strings_Join (y # ys) sep"

text \<open>\<^verbatim>\<open>xs[i]\<close> on a slice: a panic when \<open>i\<close> is out of range.\<close>

definition index :: "'a list \<Rightarrow> nat \<Rightarrow> error + 'a" where
  "index xs i =
     (if i < length xs then Inr (xs ! i) else Inl (runtime_panic ''index out of range''))"

text \<open>\<^verbatim>\<open>delete(m, k)\<close> for every \<open>k\<close> of a list, in order.\<close>

fun delete_all :: "string list \<Rightarrow> (string \<rightharpoonup> 'v) \<Rightarrow> (string \<rightharpoonup> 'v)" where
  "delete_all [] m = m"
| "delete_all (r # rs) m = delete_all rs (m(r := None))"

subsection \<open>Minting custom tokens\<close>

text \<open>The errors built at lines 158, 168 and 170.\<close>

definition errInvalidUID :: error where
  "errInvalidUID = errors_New ''uid must be non-empty, and not longer than 128 characters''"

definition errReservedClaim :: "string \<Rightarrow> error" where
  "errReservedClaim k =
     fmt_Errorf ''developer claim %q is reserved and cannot be specified'' [Q k]"

definition errReservedClaims :: "string \<Rightarrow> error" where
  "errReservedClaims names =
     fmt_Errorf ''developer claims %q are reserved and cannot be specified'' [Q names]"

text \<open>The loop at lines 161-166: the reserved names that are keys of the map, in the
  order of \<open>reservedClaims\<close>.\<close>

definition disallowedClaims :: "(string \<rightharpoonup> 'v) \<Rightarrow> string list" where
  "disallowedClaims devClaims = filter (\<lambda>k. devClaims k \<noteq> None) reservedClaims"

text \<open>The \<^verbatim>\<open>jwtInfo\<close> built at lines 174-185.\<close>

definition customTokenInfo :: "string \<Rightarrow> string \<Rightarrow> int64 \<Rightarrow> (string \<rightharpoonup> 'v) \<Rightarrow> 'v jwtInfo" where
  "customTokenInfo iss uid now devClaims =
     \<lparr>header = \<lparr>Algorithm = ''RS256'', Type = ''JWT'', KeyID = ''''\<rparr>,
      payload = \<lparr>Iss = iss, Sub = iss, Aud = firebaseAudience, UID_ct = uid,
                 Iat = now, Exp = now + tokenExpSeconds, Claims_ct = devClaims\<rparr>\<rparr>"

definition CustomTokenWithClaims ::
  "('i, 'k, 'v) package \<Rightarrow> ('i, 'k) Client \<Rightarrow> clock \<Rightarrow> string \<Rightarrow> (string \<rightharpoonup> 'v)
     \<Rightarrow> error + string" where
  "CustomTokenWithClaims P c clk uid devClaims =
     (case Email (signer c) of
        Inl err \<Rightarrow> Inl err
      | Inr iss \<Rightarrow>
          if length uid = 0 \<or> length uid > 128 then Inl errInvalidUID
          else
            let disallowed = disallowedClaims devClaims in
            if length disallowed = 1 then Inl (errReservedClaim (disallowed ! 0))
            else if length disallowed > 1
            then Inl (errReservedClaims (strings_Join disallowed '', ''))
            else
              let now = clk 0 in
              jwtInfo_Token P (customTokenInfo iss uid now devClaims) (signer c))"

definition CustomToken ::
  "('i, 'k, 'v) package \<Rightarrow> ('i, 'k) Client \<Rightarrow> clock \<Rightarrow> string \<Rightarrow> error + string" where
  "CustomToken P c clk uid = CustomTokenWithClaims P c clk uid Map.empty"

subsection \<open>Verifying ID tokens\<close>

definition projectIDMsg :: string where
  "projectIDMsg =
     ''make sure the ID token comes from the same Firebase project as the credential used to'' @
     '' authenticate this SDK''"

definition verifyTokenMsg :: string where
  "verifyTokenMsg =
     ''see https://firebase.google.com/docs/auth/admin/verify-id-tokens for details on how to '' @
     ''retrieve a valid ID token''"

text \<open>The errors built at lines 211, 214, 251-271 and 297.\<close>

definition errNoProjectID :: error where
  "errNoProjectID = errors_New ''project id not available''"

definition errEmptyToken :: error where
  "errEmptyToken = fmt_Errorf ''id token must be a non-empty string'' []"

definition errCustomToken :: error where
  "errCustomToken = fmt_Errorf ''expected an ID token but got a custom token'' []"

definition errNoKeyID :: error where
  "errNoKeyID = fmt_Errorf ''ID token has no 'kid' header'' []"

definition errAlgorithm :: "string \<Rightarrow> error" where
  "errAlgorithm alg =
     fmt_Errorf ''ID token has invalid algorithm; expected 'RS256' but got %q; %s''
       [Q alg, S verifyTokenMsg]"

definition errAudience :: "string \<Rightarrow> string \<Rightarrow> error" where
  "errAudience pid aud =
     fmt_Errorf ''ID token has invalid 'aud' (audience) claim; expected %q but got %q; %s; %s''
       [Q pid, Q aud, S projectIDMsg, S verifyTokenMsg]"

definition errIssuer :: "string \<Rightarrow> string \<Rightarrow> error" where
  "errIssuer issuer iss =
     fmt_Errorf ''ID token has invalid 'iss' (issuer) claim; expected %q but got %q; %s; %s''
       [Q issuer, Q iss, S projectIDMsg, S verifyTokenMsg]"

definition errIssuedInFuture :: "int64 \<Rightarrow> error" where
  "errIssuedInFuture iat = fmt_Errorf ''ID token issued at future timestamp: %d'' [D iat]"

definition errExpired :: "int64 \<Rightarrow> error" where
  "errExpired exp = fmt_Errorf ''ID token has expired at: %d'' [D exp]"

definition errEmptySubject :: error where
  "errEmptySubject =
     fmt_Errorf ''ID token has empty 'sub' (subject) claim; %s'' [S verifyTokenMsg]"

definition errLongSubject :: error where
  "errLongSubject =
     fmt_Errorf ''ID token has a 'sub' (subject) claim longer than 128 characters; %s''
       [S verifyTokenMsg]"

definition errRevoked :: "string \<Rightarrow> error" where
  "errRevoked code = internal_Error code ''ID token has been revoked''"

text \<open>
  \<^verbatim>\<open>VerifyIDToken\<close> up to line 240: the two preconditions, the signature check, and
  the decoding of the header and of the payload (into a \<^verbatim>\<open>Token\<close> and into a generic
  map, from which the standard claims are deleted).
\<close>

definition decodeIDToken ::
  "('i, 'k, 'v) package \<Rightarrow> ('i, 'k) Client \<Rightarrow> string \<Rightarrow> error + jwtHeader \<times> 'v Token" where
  "decodeIDToken P c idToken =
     (if projectID c = '''' then Inl errNoProjectID
      else if idToken = '''' then Inl errEmptyToken
      else
        (case verifyToken P idToken (ks c) of
           Some err \<Rightarrow> Inl err
         | None \<Rightarrow>
             let segments = strings_Split idToken (CHR ''.'') in
             (case index segments 0 of
                Inl err \<Rightarrow> Inl err
              | Inr seg0 \<Rightarrow>
             (case decode_jwtHeader P seg0 of
                Inl err \<Rightarrow> Inl err
              | Inr hdr \<Rightarrow>
             (case index segments 1 of
                Inl err \<Rightarrow> Inl err
              | Inr seg1 \<Rightarrow>
             (case decode_Token P seg1 of
                Inl err \<Rightarrow> Inl err
              | Inr pl \<Rightarrow>
             (case decode_claims P seg1 of
                Inl err \<Rightarrow> Inl err
              | Inr claims \<Rightarrow>
                  Inr (hdr, pl\<lparr>Claims := delete_all standardClaims claims\<rparr>))))))))"

text \<open>The chain of \<^verbatim>\<open>if ... else if\<close> at lines 248-272: the value of \<^verbatim>\<open>err\<close> after it.\<close>

definition checkClaims ::
  "('i, 'k) Client \<Rightarrow> clock \<Rightarrow> jwtHeader \<Rightarrow> 'v Token \<Rightarrow> error option" where
  "checkClaims c clk hdr pl =
     (let issuer = issuerPrefix @ projectID c in
      if KeyID hdr = '''' then
        (if Audience pl = firebaseAudience then Some errCustomToken else Some errNoKeyID)
      else if Algorithm hdr \<noteq> ''RS256'' then Some (errAlgorithm (Algorithm hdr))
      else if Audience pl \<noteq> projectID c then Some (errAudience (projectID c) (Audience pl))
      else if Issuer pl \<noteq> issuer then Some (errIssuer issuer (Issuer pl))
      else if clk 0 <s IssuedAt pl then Some (errIssuedInFuture (IssuedAt pl))
      else if Expires pl <s clk 1 then Some (errExpired (Expires pl))
      else if Subject pl = '''' then Some errEmptySubject
      else if length (Subject pl) > 128 then Some errLongSubject
      else None)"

text \<open>The whole of \<^verbatim>\<open>VerifyIDToken\<close>: decoding, the checks, and the copy of the subject
  into \<^verbatim>\<open>UID\<close>.\<close>

definition VerifyIDToken ::
  "('i, 'k, 'v) package \<Rightarrow> ('i, 'k) Client \<Rightarrow> clock \<Rightarrow> string \<Rightarrow> error + 'v Token" where
  "VerifyIDToken P c clk idToken =
     (case decodeIDToken P c idToken of
        Inl err \<Rightarrow> Inl err
      | Inr (hdr, pl) \<Rightarrow>
          (case checkClaims c clk hdr pl of
             Some err \<Rightarrow> Inl err
           | None \<Rightarrow> Inr (pl\<lparr>UID := Subject pl\<rparr>)))"

definition VerifyIDTokenAndCheckRevoked ::
  "('i, 'k, 'v) package \<Rightarrow> ('i, 'k) Client \<Rightarrow> clock \<Rightarrow> string \<Rightarrow> error + 'v Token" where
  "VerifyIDTokenAndCheckRevoked P c clk idToken =
     (case VerifyIDToken P c clk idToken of
        Inl err \<Rightarrow> Inl err
      | Inr p \<Rightarrow>
          (case GetUser P c (UID p) of
             Inl err \<Rightarrow> Inl err
           | Inr user \<Rightarrow>
               if IssuedAt p * 1000 <s TokensValidAfterMillis user
               then Inl (errRevoked (idTokenRevoked P))
               else Inr p))"

subsection \<open>The ordered checks of the specification\<close>

text \<open>
  The specification gives the semantic validation as eight checks (a) to (h) in a
  fixed order, the first failing check giving the error. \<open>semanticChecks\<close> is that
  list, each check with the condition under which it fails and the error it gives;
  \<open>firstFailure\<close> is the error of the first check of a list that fails.
\<close>

definition semanticChecks ::
  "('i, 'k) Client \<Rightarrow> clock \<Rightarrow> jwtHeader \<Rightarrow> 'v Token \<Rightarrow> (bool \<times> error) list" where
  "semanticChecks c clk hdr pl =
     [(KeyID hdr = '''',
         if Audience pl = firebaseAudience then errCustomToken else errNoKeyID),
      (Algorithm hdr \<noteq> ''RS256'', errAlgorithm (Algorithm hdr)),
      (Audience pl \<noteq> projectID c, errAudience (projectID c) (Audience pl)),
      (Issuer pl \<noteq> issuerPrefix @ projectID c,
         errIssuer (issuerPrefix @ projectID c) (Issuer pl)),
      (clk 0 <s IssuedAt pl, errIssuedInFuture (IssuedAt pl)),
      (Expires pl <s clk 1, errExpired (Expires pl)),
      (Subject pl = '''', errEmptySubject),
      (length (Subject pl) > 128, errLongSubject)]"

fun firstFailure :: "(bool \<times> error) list \<Rightarrow> error option" where
  "firstFailure [] = None"
| "firstFailure ((failed, err) # cs) = (if failed then Some err else firstFailure cs)"

section \<open>A reference instance\<close>

text \<open>
  To run the model on concrete inputs its parameters need values. This section gives
  one small implementation of the rest of the package and of the collaborators: a
  codec for tokens, a signer, a key source, a user table and a clock. It stands in for
  the package's JSON, base64 and RSA code, which the theorems about the program do not
  depend on; it is used only where a theorem is applied to a concrete input.

  A segment is a list of fields \<^verbatim>\<open>key=value\<close> separated by \<^verbatim>\<open>;\<close>. Keys and values
  are escaped so that none of \<^verbatim>\<open>.\<close>, \<^verbatim>\<open>;\<close> and \<^verbatim>\<open>=\<close> occurs in them; an
  \<^verbatim>\<open>int64\<close> is written in decimal. A token is three segments joined by \<^verbatim>\<open>.\<close>:
  the header, the payload, and the escaped signature. The signature of a message under
  a key is the key, a colon and the message.
\<close>

fun escape :: "string \<Rightarrow> string" where
  "escape [] = []"
| "escape (c # cs) =
     (if c = CHR ''%'' then ''%%'' @ escape cs
      else if c = CHR ''.'' then ''%d'' @ escape cs
      else if c = CHR '';'' then ''%s'' @ escape cs
      else if c = CHR ''='' then ''%e'' @ escape cs
      else c # escape cs)"

fun unescape :: "string \<Rightarrow> string option" where
  "unescape [] = Some []"
| "unescape (c # cs) =
     (if c = CHR ''%'' then
        (case cs of
           [] \<Rightarrow> None
         | d # ds \<Rightarrow>
             (case unescape ds of
                None \<Rightarrow> None
              | Some r \<Rightarrow>
                  if d = CHR ''%'' then Some (CHR ''%'' # r)
                  else if d = CHR ''d'' then Some (CHR ''.'' # r)
                  else if d = CHR ''s'' then Some (CHR '';'' # r)
                  else if d = CHR ''e'' then Some (CHR ''='' # r)
                  else None))
      else map_option ((#) c) (unescape cs))"

text \<open>Decimal digits of a non-negative integer, at most as many as the first argument.\<close>

fun digits :: "nat \<Rightarrow> int \<Rightarrow> string" where
  "digits 0 n = []"
| "digits (Suc f) n =
     (if n < 10 then [''0123456789'' ! nat n]
      else digits f (n div 10) @ [''0123456789'' ! nat (n mod 10)])"

definition decimal :: "int64 \<Rightarrow> string" where
  "decimal w = (if sint w < 0 then CHR ''-'' # digits 20 (- sint w) else digits 20 (sint w))"

fun number :: "int \<Rightarrow> string \<Rightarrow> int option" where
  "number a [] = Some a"
| "number a (c # cs) =
     (case map_of (zip ''0123456789'' [0, 1, 2, 3, 4, 5, 6, 7, 8, 9]) c of
        None \<Rightarrow> None
      | Some d \<Rightarrow> number (10 * a + d) cs)"

definition parse_int64 :: "string \<Rightarrow> int64 option" where
  "parse_int64 s =
     (case s of
        [] \<Rightarrow> None
      | c # cs \<Rightarrow>
          if c = CHR ''-''
          then (if cs = [] then None else map_option (\<lambda>n. word_of_int (- n)) (number 0 cs))
          else map_option word_of_int (number 0 s))"

definition encode_field :: "string \<times> string \<Rightarrow> string" where
  "encode_field kv = escape (fst kv) @ ''='' @ escape (snd kv)"

definition encode_fields :: "(string \<times> string) list \<Rightarrow> string" where
  "encode_fields kvs = strings_Join (map encode_field kvs) '';''"

definition decode_field :: "string \<Rightarrow> (string \<times> string) option" where
  "decode_field f =
     (case strings_Split f (CHR ''='') of
        [k, v] \<Rightarrow>
          (case (unescape k, unescape v) of
             (Some k', Some v') \<Rightarrow> Some (k', v')
           | _ \<Rightarrow> None)
      | _ \<Rightarrow> None)"

fun decode_all :: "string list \<Rightarrow> (string \<times> string) list option" where
  "decode_all [] = Some []"
| "decode_all (f # fs) =
     (case (decode_field f, decode_all fs) of
        (Some kv, Some kvs) \<Rightarrow> Some (kv # kvs)
      | _ \<Rightarrow> None)"

definition decode_fields :: "string \<Rightarrow> error + (string \<times> string) list" where
  "decode_fields s =
     (case decode_all (strings_Split s (CHR '';'')) of
        None \<Rightarrow> Inl (errors_New ''malformed segment'')
      | Some kvs \<Rightarrow> Inr kvs)"

text \<open>The fields of a header (the key id is left out when empty) and of a custom
  token's payload (the developer claims follow the standard ones, by key).\<close>

definition header_fields :: "jwtHeader \<Rightarrow> (string \<times> string) list" where
  "header_fields h =
     [(''alg'', Algorithm h), (''typ'', Type h)] @
     (if KeyID h = '''' then [] else [(''kid'', KeyID h)])"

definition payload_fields :: "string customToken \<Rightarrow> (string \<times> string) list" where
  "payload_fields p =
     [(''iss'', Iss p), (''sub'', Sub p), (''aud'', Aud p), (''uid'', UID_ct p),
      (''iat'', decimal (Iat p)), (''exp'', decimal (Exp p))] @
     map (\<lambda>k. (k, the (Claims_ct p k))) (sorted_list_of_set (dom (Claims_ct p)))"

definition str_field :: "(string \<times> string) list \<Rightarrow> string \<Rightarrow> string" where
  "str_field kvs k = (case map_of kvs k of None \<Rightarrow> '''' | Some v \<Rightarrow> v)"

definition int_field :: "(string \<times> string) list \<Rightarrow> string \<Rightarrow> error + int64" where
  "int_field kvs k =
     (case map_of kvs k of
        None \<Rightarrow> Inr 0
      | Some v \<Rightarrow>
          (case parse_int64 v of
             None \<Rightarrow> Inl (errors_New ''malformed number'')
           | Some n \<Rightarrow> Inr n))"

definition header_of_fields :: "(string \<times> string) list \<Rightarrow> jwtHeader" where
  "header_of_fields kvs =
     \<lparr>Algorithm = str_field kvs ''alg'', Type = str_field kvs ''typ'',
      KeyID = str_field kvs ''kid''\<rparr>"

definition token_of_fields :: "(string \<times> string) list \<Rightarrow> error + string Token" where
  "token_of_fields kvs =
     (case int_field kvs ''exp'' of
        Inl err \<Rightarrow> Inl err
      | Inr e \<Rightarrow>
          (case int_field kvs ''iat'' of
             Inl err \<Rightarrow> Inl err
           | Inr i \<Rightarrow>
               Inr \<lparr>Issuer = str_field kvs ''iss'', Audience = str_field kvs ''aud'',
                    Expires = e, IssuedAt = i, Subject = str_field kvs ''sub'',
                    UID = str_field kvs ''uid'', Claims = Map.empty\<rparr>))"

definition test_decode_jwtHeader :: "string \<Rightarrow> error + jwtHeader" where
  "test_decode_jwtHeader s =
     (case decode_fields s of
        Inl err \<Rightarrow> Inl err
      | Inr kvs \<Rightarrow> Inr (header_of_fields kvs))"

definition test_decode_Token :: "string \<Rightarrow> error + string Token" where
  "test_decode_Token s =
     (case decode_fields s of
        Inl err \<Rightarrow> Inl err
      | Inr kvs \<Rightarrow> token_of_fields kvs)"

definition test_decode_claims :: "string \<Rightarrow> error + (string \<rightharpoonup> string)" where
  "test_decode_claims s =
     (case decode_fields s of
        Inl err \<Rightarrow> Inl err
      | Inr kvs \<Rightarrow> Inr (map_of kvs))"

definition sign_with :: "string \<Rightarrow> string \<Rightarrow> string" where
  "sign_with key bytes = key @ '':'' @ bytes"

definition signed_token :: "string \<Rightarrow> string \<Rightarrow> string \<Rightarrow> string" where
  "signed_token seg0 seg1 sig = seg0 @ ''.'' @ seg1 @ ''.'' @ escape sig"

definition test_jwtInfo_Token :: "string jwtInfo \<Rightarrow> cryptoSigner \<Rightarrow> error + string" where
  "test_jwtInfo_Token info sg =
     (let seg0 = encode_fields (header_fields (header info));
          seg1 = encode_fields (payload_fields (payload info))
      in case Sign sg (seg0 @ ''.'' @ seg1) of
           Inl err \<Rightarrow> Inl err
         | Inr sig \<Rightarrow> Inr (signed_token seg0 seg1 sig))"

text \<open>The key source is a table from key ids to keys; a token without key id is
  checked against the key filed under the empty key id.\<close>

type_synonym test_keys = "(string \<times> string) list"

definition test_verifyToken :: "string \<Rightarrow> test_keys \<Rightarrow> error option" where
  "test_verifyToken tok keys =
     (case strings_Split tok (CHR ''.'') of
        [seg0, seg1, seg2] \<Rightarrow>
          (case test_decode_jwtHeader seg0 of
             Inl err \<Rightarrow> Some err
           | Inr h \<Rightarrow>
               (case map_of keys (KeyID h) of
                  None \<Rightarrow> Some (errors_New ''no matching key'')
                | Some key \<Rightarrow>
                    if unescape seg2 = Some (sign_with key (seg0 @ ''.'' @ seg1)) then None
                    else Some (errors_New ''failed to verify token signature'')))
      | _ \<Rightarrow> Some (errors_New ''incorrect number of segments''))"

definition test_GetUser :: "(unit, test_keys) Client \<Rightarrow> string \<Rightarrow> error + UserRecord" where
  "test_GetUser c uid =
     (if uid = ''alice'' then Inr \<lparr>TokensValidAfterMillis = 1699999500000\<rparr>
      else Inl (internal_Error ''user-not-found'' ''cannot find user''))"

definition test_package :: "(unit, test_keys, string) package" where
  "test_package =
     \<lparr>jwtInfo_Token = test_jwtInfo_Token, verifyToken = test_verifyToken,
      decode_jwtHeader = test_decode_jwtHeader, decode_Token = test_decode_Token,
      decode_claims = test_decode_claims, GetUser = test_GetUser,
      idTokenRevoked = ''id-token-revoked''\<rparr>"

definition test_signer :: cryptoSigner where
  "test_signer =
     \<lparr>Email = Inr ''signer@example.com'', Sign = (\<lambda>b. Inr (sign_with ''key0'' b))\<rparr>"

definition test_client :: "(unit, test_keys) Client" where
  "test_client =
     \<lparr>is' = (), ks = [('''', ''key0''), (''kid1'', ''key1'')], projectID = ''demo'',
      signer = test_signer, version = ''Go/Admin/test''\<rparr>"

text \<open>A client whose signer cannot be reached.\<close>

definition errUnavailable :: error where
  "errUnavailable = errors_New ''signer unavailable''"

definition offline_client :: "(unit, test_keys) Client" where
  "offline_client =
     test_client\<lparr>signer := \<lparr>Email = Inl errUnavailable, Sign = (\<lambda>b. Inl errUnavailable)\<rparr>\<rparr>"

text \<open>A clock that stands still at 1700000000.\<close>

definition test_clock :: clock where
  "test_clock = (\<lambda>n. 1700000000)"

text \<open>
  Three tokens. \<open>test_id_token\<close> is an ID token of project \<^verbatim>\<open>demo\<close> for the user
  \<^verbatim>\<open>alice\<close>, issued 1000 seconds before the clock's time and expiring 3000 seconds
  after it, signed with the key \<^verbatim>\<open>kid1\<close> of the key source. \<open>forged_id_token\<close> is the
  same header and payload under a signature made with another key.
  \<open>test_custom_token\<close> is the custom token that the client mints for \<^verbatim>\<open>alice\<close> with
  the developer claim \<^verbatim>\<open>admin\<close>.
\<close>

definition test_header :: jwtHeader where
  "test_header = \<lparr>Algorithm = ''RS256'', Type = ''JWT'', KeyID = ''kid1''\<rparr>"

definition test_payload :: "(string \<times> string) list" where
  "test_payload =
     [(''iss'', ''https://securetoken.google.com/demo''), (''aud'', ''demo''),
      (''auth_time'', ''1699999000''), (''sub'', ''alice''), (''iat'', ''1699999000''),
      (''exp'', ''1700003000''), (''admin'', ''yes'')]"

definition id_token :: "jwtHeader \<Rightarrow> (string \<times> string) list \<Rightarrow> string \<Rightarrow> string" where
  "id_token h kvs key =
     (let seg0 = encode_fields (header_fields h); seg1 = encode_fields kvs
      in signed_token seg0 seg1 (sign_with key (seg0 @ ''.'' @ seg1)))"

definition test_id_token :: string where
  "test_id_token = id_token test_header test_payload ''key1''"

definition forged_id_token :: string where
  "forged_id_token = id_token test_header test_payload ''key9''"

definition custom_header :: jwtHeader where
  "custom_header = \<lparr>Algorithm = ''RS256'', Type = ''JWT'', KeyID = ''''\<rparr>"

definition custom_payload :: "(string \<times> string) list" where
  "custom_payload =
     [(''iss'', ''signer@example.com''), (''sub'', ''signer@example.com''),
      (''aud'', firebaseAudience), (''uid'', ''alice''), (''iat'', ''1700000000''),
      (''exp'', ''1700003600''), (''admin'', ''yes'')]"

definition test_custom_token :: string where
  "test_custom_token = id_token custom_header custom_payload ''key0''"

text \<open>What the two accepted tokens decode to (the standard claims deleted from the
  claim map, \<^verbatim>\<open>UID\<close> as decoded).\<close>

definition decoded_id_token :: "string Token" where
  "decoded_id_token =
     \<lparr>Issuer = ''https://securetoken.google.com/demo'', Audience = ''demo'',
      Expires = 1700003000, IssuedAt = 1699999000, Subject = ''alice'', UID = '''',
      Claims = [''auth_time'' \<mapsto> ''1699999000'', ''admin'' \<mapsto> ''yes'']\<rparr>"

definition decoded_custom_token :: "string Token" where
  "decoded_custom_token =
     \<lparr>Issuer = ''signer@example.com'', Audience = firebaseAudience,
      Expires = 1700003600, IssuedAt = 1700000000, Subject = ''signer@example.com'',
      UID = ''alice'', Claims = [''admin'' \<mapsto> ''yes'']\<rparr>"

text \<open>An ID token like \<open>test_id_token\<close> but without key id, signed with the key filed
  under the empty key id; a client of another project; a clock that stands still long
  after the tokens have expired; a user table that puts the cutoff of every user at
  the very second \<open>test_id_token\<close> was issued.\<close>

definition unkeyed_id_token :: string where
  "unkeyed_id_token = id_token custom_header test_payload ''key0''"

definition other_client :: "(unit, test_keys) Client" where
  "other_client = test_client\<lparr>projectID := ''other''\<rparr>"

definition late_clock :: clock where
  "late_clock = (\<lambda>n. 1800000000)"

definition boundary_package :: "(unit, test_keys, string) package" where
  "boundary_package =
     test_package\<lparr>GetUser := (\<lambda>c uid. Inr \<lparr>TokensValidAfterMillis = 1699999000000\<rparr>)\<rparr>"

text \<open>The custom token \<open>test_custom_token\<close> with one byte of its signature changed: the
  header without key id and the payload with the custom-token audience are the same.\<close>

definition forged_custom_token :: string where
  "forged_custom_token = id_token custom_header custom_payload ''key9''"

section \<open>Properties\<close>

subsection \<open>Auxiliary facts\<close>

lemma strings_Split_nonempty: "strings_Split s sep \<noteq> []"
  by (induction s) (auto split: list.splits)

lemma delete_all_eq: "delete_all rs m = (\<lambda>k. if k \<in> set rs then None else m k)"
  by (induction rs arbitrary: m) (auto simp: fun_eq_iff)

text \<open>\<open>firstFailure\<close> gives the error of a check exactly when that check fails and no
  check before it does.\<close>

lemma firstFailure_Some_iff:
  "firstFailure cs = Some err \<longleftrightarrow>
     (\<exists>pre post. cs = pre @ (True, err) # post \<and> (\<forall>c \<in> set pre. \<not> fst c))"
proof (induction cs rule: firstFailure.induct)
  case 1
  then show ?case by simp
next
  case (2 failed e cs)
  show ?case
  proof (cases failed)
    case True
    then show ?thesis
      by (auto simp: Cons_eq_append_conv)
  next
    case False
    have "(\<exists>pre post. (failed, e) # cs = pre @ (True, err) # post \<and> (\<forall>c \<in> set pre. \<not> fst c))
       \<longleftrightarrow> (\<exists>pre post. cs = pre @ (True, err) # post \<and> (\<forall>c \<in> set pre. \<not> fst c))"
    proof
      assume "\<exists>pre post. (failed, e) # cs = pre @ (True, err) # post \<and> (\<forall>c \<in> set pre. \<not> fst c)"
      then obtain pre post where eq: "(failed, e) # cs = pre @ (True, err) # post"
          and pre: "\<forall>c \<in> set pre. \<not> fst c"
        by blast
      from eq False obtain pre' where "pre = (failed, e) # pre'" and "cs = pre' @ (True, err) # post"
        by (cases pre) auto
      with pre show "\<exists>pre post. cs = pre @ (True, err) # post \<and> (\<forall>c \<in> set pre. \<not> fst c)"
        by auto
    next
      assume "\<exists>pre post. cs = pre @ (True, err) # post \<and> (\<forall>c \<in> set pre. \<not> fst c)"
      then obtain pre post where "cs = pre @ (True, err) # post" and "\<forall>c \<in> set pre. \<not> fst c"
        by blast
      with False have "(failed, e) # cs = ((failed, e) # pre) @ (True, err) # post"
          and "\<forall>c \<in> set ((failed, e) # pre). \<not> fst c"
        by auto
      then show "\<exists>pre post. (failed, e) # cs = pre @ (True, err) # post \<and> (\<forall>c \<in> set pre. \<not> fst c)"
        by blast
    qed
    with False "2.IH" show ?thesis
      by simp
  qed
qed

lemma firstFailure_None_iff: "firstFailure cs = None \<longleftrightarrow> (\<forall>c \<in> set cs. \<not> fst c)"
  by (induction cs rule: firstFailure.induct) auto

text \<open>Go's \<^verbatim>\<open>int64\<close> product and sum agree with the integers' as long as the result
  fits into 64 bits.\<close>

lemma int64_times_1000:
  fixes x :: int64
  assumes "- 9223372036854775 \<le> sint x" and "sint x \<le> 9223372036854775"
  shows "sint (x * 1000) = sint x * 1000"
proof -
  have "sint (x * 1000) = signed_take_bit 63 (sint x * sint (1000 :: int64))"
    by (simp add: sint_word_ariths)
  also have "\<dots> = signed_take_bit 63 (sint x * 1000)"
    by simp
  also have "\<dots> = sint x * 1000"
    using assms by (intro signed_take_bit_int_eq_self) auto
  finally show ?thesis .
qed

lemma int64_plus_3600:
  fixes x :: int64
  assumes "sint x \<le> 9223372036854772207"
  shows "sint (x + 3600) = sint x + 3600"
proof -
  have "- 9223372036854775808 \<le> sint x"
    using sint_ge [of x] by simp
  have "sint (x + 3600) = signed_take_bit 63 (sint x + sint (3600 :: int64))"
    by (simp add: sint_word_ariths)
  also have "\<dots> = signed_take_bit 63 (sint x + 3600)"
    by simp
  also have "\<dots> = sint x + 3600"
    using assms \<open>- 9223372036854775808 \<le> sint x\<close>
    by (intro signed_take_bit_int_eq_self) auto
  finally show ?thesis .
qed

lemma distinct_reservedClaims: "distinct reservedClaims"
  by (simp add: reservedClaims_def)

lemma disallowed_set: "set (disallowedClaims m) = dom m \<inter> set reservedClaims"
  by (auto simp: disallowedClaims_def)

lemma disallowed_distinct: "distinct (disallowedClaims m)"
  by (simp add: disallowedClaims_def distinct_reservedClaims)

lemma disallowed_filter:
  "disallowedClaims m = filter (\<lambda>r. r \<in> dom m) reservedClaims"
  by (simp add: disallowedClaims_def dom_def)

lemma distinct_singleton_list:
  assumes "distinct xs" and "set xs = {k}"
  shows "xs = [k]"
proof -
  have "length xs = 1"
    using assms distinct_card [of xs] by simp
  then obtain x where "xs = [x]"
    by (cases xs) auto
  with assms show ?thesis by simp
qed

subsection \<open>The reference instance on its tokens\<close>

text \<open>The codec of the reference instance undoes its own escaping, and it decodes the
  three tokens to the headers and fields they were built from.\<close>

lemma decimal_1700000000: "decimal 1700000000 = ''1700000000''"
  by code_simp

lemma decimal_1700003600: "decimal 1700003600 = ''1700003600''"
  by code_simp

lemma split_test_id_token:
  "strings_Split test_id_token (CHR ''.'') =
     [encode_fields (header_fields test_header), encode_fields test_payload,
      escape (sign_with ''key1''
        (encode_fields (header_fields test_header) @ ''.'' @ encode_fields test_payload))]"
  by code_simp

lemma split_forged_id_token:
  "strings_Split forged_id_token (CHR ''.'') =
     [encode_fields (header_fields test_header), encode_fields test_payload,
      escape (sign_with ''key9''
        (encode_fields (header_fields test_header) @ ''.'' @ encode_fields test_payload))]"
  by code_simp

lemma split_test_custom_token:
  "strings_Split test_custom_token (CHR ''.'') =
     [encode_fields (header_fields custom_header), encode_fields custom_payload,
      escape (sign_with ''key0''
        (encode_fields (header_fields custom_header) @ ''.'' @ encode_fields custom_payload))]"
  by code_simp

lemma decode_test_header:
  "test_decode_jwtHeader (encode_fields (header_fields test_header)) = Inr test_header"
  by code_simp

lemma decode_custom_header:
  "test_decode_jwtHeader (encode_fields (header_fields custom_header)) = Inr custom_header"
  by code_simp

lemma decode_test_payload: "decode_fields (encode_fields test_payload) = Inr test_payload"
  by code_simp

lemma decode_custom_payload: "decode_fields (encode_fields custom_payload) = Inr custom_payload"
  by code_simp

lemma unescape_escape: "unescape (escape s) = Some s"
  by (induction s) simp_all

lemma header_key_ids: "KeyID test_header = ''kid1''" "KeyID custom_header = []"
  by (simp_all add: test_header_def custom_header_def)

lemma nonempty_tokens:
  "test_id_token \<noteq> ''''" "forged_id_token \<noteq> ''''" "test_custom_token \<noteq> ''''"
  by code_simp+

lemma fields_test_payload:
  "int_field test_payload ''exp'' = Inr 1700003000"
  "int_field test_payload ''iat'' = Inr 1699999000"
  "str_field test_payload ''iss'' = ''https://securetoken.google.com/demo''"
  "str_field test_payload ''aud'' = ''demo''"
  "str_field test_payload ''sub'' = ''alice''"
  "str_field test_payload ''uid'' = ''''"
  by code_simp+

lemma fields_custom_payload:
  "int_field custom_payload ''exp'' = Inr 1700003600"
  "int_field custom_payload ''iat'' = Inr 1700000000"
  "str_field custom_payload ''iss'' = ''signer@example.com''"
  "str_field custom_payload ''aud'' = firebaseAudience"
  "str_field custom_payload ''sub'' = ''signer@example.com''"
  "str_field custom_payload ''uid'' = ''alice''"
  by code_simp+

lemma claims_test_payload:
  "delete_all standardClaims (map_of test_payload) =
     [''auth_time'' \<mapsto> ''1699999000'', ''admin'' \<mapsto> ''yes'']"
  by (rule ext) (simp add: delete_all_eq standardClaims_def test_payload_def)

lemma claims_custom_payload:
  "delete_all standardClaims (map_of custom_payload) = [''admin'' \<mapsto> ''yes'']"
  by (rule ext) (simp add: delete_all_eq standardClaims_def custom_payload_def)

lemmas test_package_simps =
  test_package_def test_client_def test_verifyToken_def test_decode_Token_def
  test_decode_claims_def token_of_fields_def index_def

lemma verify_test_id_token: "test_verifyToken test_id_token (ks test_client) = None"
  by (simp add: test_verifyToken_def test_client_def split_test_id_token decode_test_header
      header_key_ids unescape_escape)

lemma verify_test_custom_token: "test_verifyToken test_custom_token (ks test_client) = None"
  by (simp add: test_verifyToken_def test_client_def split_test_custom_token
      decode_custom_header header_key_ids unescape_escape)

lemma verify_forged_id_token:
  "test_verifyToken forged_id_token (ks test_client) =
     Some (errors_New ''failed to verify token signature'')"
  by (simp add: test_verifyToken_def test_client_def split_forged_id_token decode_test_header
      header_key_ids unescape_escape sign_with_def)

lemma decode_test_id_token:
  "decodeIDToken test_package test_client test_id_token = Inr (test_header, decoded_id_token)"
  using verify_test_id_token
  by (simp add: decodeIDToken_def test_package_simps nonempty_tokens split_test_id_token
      decode_test_header decode_test_payload fields_test_payload claims_test_payload
      decoded_id_token_def)

lemma decode_test_custom_token:
  "decodeIDToken test_package test_client test_custom_token =
     Inr (custom_header, decoded_custom_token)"
  using verify_test_custom_token
  by (simp add: decodeIDToken_def test_package_simps nonempty_tokens split_test_custom_token
      decode_custom_header decode_custom_payload fields_custom_payload claims_custom_payload
      decoded_custom_token_def)

lemma encode_test_custom_token:
  "jwtInfo_Token test_package
     (customTokenInfo ''signer@example.com'' ''alice'' (test_clock 0) [''admin'' \<mapsto> ''yes''])
     (signer test_client) = Inr test_custom_token"
  by (simp add: test_package_def test_client_def test_signer_def test_clock_def
      test_jwtInfo_Token_def customTokenInfo_def tokenExpSeconds_def payload_fields_def Let_def
      decimal_1700000000 decimal_1700003600 test_custom_token_def id_token_def
      custom_header_def custom_payload_def)

lemma mint_test_custom_token:
  "CustomTokenWithClaims test_package test_client test_clock ''alice'' [''admin'' \<mapsto> ''yes''] =
     Inr test_custom_token"
  using encode_test_custom_token
  by (simp add: CustomTokenWithClaims_def disallowedClaims_def reservedClaims_def
      test_client_def test_signer_def)

lemma split_unkeyed_id_token:
  "strings_Split unkeyed_id_token (CHR ''.'') =
     [encode_fields (header_fields custom_header), encode_fields test_payload,
      escape (sign_with ''key0''
        (encode_fields (header_fields custom_header) @ ''.'' @ encode_fields test_payload))]"
  by code_simp

lemma nonempty_unkeyed_id_token: "unkeyed_id_token \<noteq> ''''"
  by code_simp

lemma verify_unkeyed_id_token: "test_verifyToken unkeyed_id_token (ks test_client) = None"
  by (simp add: test_verifyToken_def test_client_def split_unkeyed_id_token
      decode_custom_header header_key_ids unescape_escape)

lemma decode_unkeyed_id_token:
  "decodeIDToken test_package test_client unkeyed_id_token = Inr (custom_header, decoded_id_token)"
  using verify_unkeyed_id_token
  by (simp add: decodeIDToken_def test_package_simps nonempty_unkeyed_id_token
      split_unkeyed_id_token decode_custom_header decode_test_payload fields_test_payload
      claims_test_payload decoded_id_token_def)

text \<open>Decoding looks at the client's project id only to see that it is not empty, and
  never at the user table.\<close>

lemma decodeIDToken_other_client:
  "decodeIDToken test_package other_client tok = decodeIDToken test_package test_client tok"
  by (simp add: decodeIDToken_def other_client_def test_client_def)

lemma boundary_package_fields:
  "verifyToken boundary_package = verifyToken test_package"
  "decode_jwtHeader boundary_package = decode_jwtHeader test_package"
  "decode_Token boundary_package = decode_Token test_package"
  "decode_claims boundary_package = decode_claims test_package"
  by (simp_all add: boundary_package_def)

lemma VerifyIDToken_boundary_package:
  "VerifyIDToken boundary_package c clk tok = VerifyIDToken test_package c clk tok"
  unfolding VerifyIDToken_def decodeIDToken_def boundary_package_fields ..

text \<open>The checks on the decoded tokens.\<close>

lemma checkClaims_decoded_id_token: "checkClaims test_client test_clock test_header decoded_id_token = None"
  by (simp add: checkClaims_def test_client_def test_clock_def test_header_def
      decoded_id_token_def issuerPrefix_def)

lemma accept_test_id_token:
  "VerifyIDToken test_package test_client test_clock test_id_token =
     Inr (decoded_id_token\<lparr>UID := ''alice''\<rparr>)"
  by (simp add: VerifyIDToken_def decode_test_id_token checkClaims_decoded_id_token)
    (simp add: decoded_id_token_def)

text \<open>The forged custom token: its header and payload decode as those of
  \<open>test_custom_token\<close>, its signature does not verify.\<close>

lemma split_forged_custom_token:
  "strings_Split forged_custom_token (CHR ''.'') =
     [encode_fields (header_fields custom_header), encode_fields custom_payload,
      escape (sign_with ''key9''
        (encode_fields (header_fields custom_header) @ ''.'' @ encode_fields custom_payload))]"
  by code_simp

lemma nonempty_forged_custom_token: "forged_custom_token \<noteq> ''''"
  by code_simp

lemma verify_forged_custom_token:
  "test_verifyToken forged_custom_token (ks test_client) =
     Some (errors_New ''failed to verify token signature'')"
  by (simp add: test_verifyToken_def test_client_def split_forged_custom_token
      decode_custom_header header_key_ids unescape_escape sign_with_def)

lemma header_forged_custom_token:
  "decode_jwtHeader test_package (strings_Split forged_custom_token (CHR ''.'') ! 0) =
     Inr custom_header"
  by (simp add: split_forged_custom_token test_package_def decode_custom_header)

lemma payload_forged_custom_token:
  "decode_Token test_package (strings_Split forged_custom_token (CHR ''.'') ! 1) =
     Inr (decoded_custom_token\<lparr>Claims := Map.empty\<rparr>)"
  by (simp add: split_forged_custom_token test_package_def test_decode_Token_def
      decode_custom_payload token_of_fields_def fields_custom_payload decoded_custom_token_def)

subsection \<open>Minting\<close>

text \<open>
  C10. \<^verbatim>\<open>CustomTokenWithClaims\<close> resolves the signer's identity before it validates
  its input: whenever the signer's \<^verbatim>\<open>Email\<close> call fails, the error returned is that
  error, whatever the uid (empty, longer than 128 bytes) and whatever the claim map
  (with reserved keys or without).
\<close>

theorem signer_error_first:
  "Email (signer c) = Inl err \<Longrightarrow> CustomTokenWithClaims P c clk uid devClaims = Inl err"
  by (simp add: CustomTokenWithClaims_def)

theorem signer_error_first_witness:
  "Email (signer offline_client) = Inl errUnavailable \<and>
   CustomTokenWithClaims test_package offline_client test_clock '''' [''aud'' \<mapsto> ''x''] =
     Inl errUnavailable"
  using signer_error_first [where c = offline_client and err = errUnavailable
      and P = test_package and clk = test_clock and uid = "''''"
      and devClaims = "[''aud'' \<mapsto> ''x'']"]
  by (simp add: offline_client_def)

text \<open>
  C6, as amended. For every uid of length 0 or of length greater than 128,
  \<^verbatim>\<open>CustomToken\<close> and \<^verbatim>\<open>CustomTokenWithClaims\<close> return an error and no token string.
  The error is the input-validation error \<^verbatim>\<open>uid must be non-empty, and not longer than
  128 characters\<close> when the signer's \<^verbatim>\<open>Email\<close> call succeeds, and the signer's error
  when that call fails.
\<close>

theorem invalid_uid_rejected:
  assumes "length uid = 0 \<or> length uid > 128"
  shows "CustomTokenWithClaims P c clk uid devClaims =
           Inl (case Email (signer c) of Inl err \<Rightarrow> err | Inr iss \<Rightarrow> errInvalidUID) \<and>
         CustomToken P c clk uid =
           Inl (case Email (signer c) of Inl err \<Rightarrow> err | Inr iss \<Rightarrow> errInvalidUID)"
  using assms by (auto simp: CustomToken_def CustomTokenWithClaims_def split: sum.splits)

theorem invalid_uid_rejected_witness:
  "length (replicate 129 (CHR ''u'')) > 128 \<and>
   CustomTokenWithClaims test_package test_client test_clock (replicate 129 (CHR ''u''))
     [''admin'' \<mapsto> ''yes''] = Inl errInvalidUID \<and>
   CustomToken test_package test_client test_clock (replicate 129 (CHR ''u'')) = Inl errInvalidUID \<and>
   CustomToken test_package test_client test_clock '''' = Inl errInvalidUID \<and>
   CustomToken test_package offline_client test_clock '''' = Inl errUnavailable"
  using invalid_uid_rejected [where uid = "replicate 129 (CHR ''u'')" and P = test_package
      and c = test_client and clk = test_clock and devClaims = "[''admin'' \<mapsto> ''yes'']"]
    invalid_uid_rejected [where uid = "''''" and P = test_package
      and c = test_client and clk = test_clock and devClaims = Map.empty]
    invalid_uid_rejected [where uid = "''''" and P = test_package
      and c = offline_client and clk = test_clock and devClaims = Map.empty]
  by (simp add: test_client_def test_signer_def offline_client_def)

text \<open>
  C6 as stated fails: with a signer that cannot be reached, the empty uid is answered
  with the signer's error, not with the input-validation error.
\<close>

theorem invalid_uid_counterexample:
  "length ('''' :: string) = 0 \<and>
   CustomTokenWithClaims test_package offline_client test_clock '''' Map.empty =
     Inl (errors_New ''signer unavailable'') \<and>
   CustomTokenWithClaims test_package offline_client test_clock '''' Map.empty \<noteq>
     Inl errInvalidUID"
  by (simp add: CustomTokenWithClaims_def offline_client_def errUnavailable_def
      errInvalidUID_def)

text \<open>
  C7, as amended. When the signer's \<^verbatim>\<open>Email\<close> call succeeds and the uid has length 1
  to 128: for every claim map with exactly one key from the reserved-claims set,
  \<^verbatim>\<open>CustomTokenWithClaims\<close> fails with the error that names exactly that key, in the
  singular form; for every claim map with two or more reserved keys it fails with the
  plural form, naming all of them, in the order of the reserved-claims list, joined by
  a comma and a space; for a claim map with no reserved key no reserved-claims error is
  raised: the token is built and handed to the encoder.
\<close>

theorem reserved_claims_rejected:
  assumes "Email (signer c) = Inr iss" and "1 \<le> length uid" and "length uid \<le> 128"
  shows "(dom devClaims \<inter> set reservedClaims = {k} \<longrightarrow>
            CustomTokenWithClaims P c clk uid devClaims = Inl (errReservedClaim k)) \<and>
         (2 \<le> card (dom devClaims \<inter> set reservedClaims) \<longrightarrow>
            CustomTokenWithClaims P c clk uid devClaims =
              Inl (errReservedClaims
                     (strings_Join (filter (\<lambda>r. r \<in> dom devClaims) reservedClaims) '', ''))) \<and>
         (dom devClaims \<inter> set reservedClaims = {} \<longrightarrow>
            CustomTokenWithClaims P c clk uid devClaims =
              jwtInfo_Token P (customTokenInfo iss uid (clk 0) devClaims) (signer c))"
proof -
  have uid: "uid \<noteq> []"
    using assms(2) by (cases uid) simp_all
  show ?thesis
  proof (intro conjI impI)
    assume "dom devClaims \<inter> set reservedClaims = {k}"
    then have "disallowedClaims devClaims = [k]"
      by (intro distinct_singleton_list) (simp_all add: disallowed_distinct disallowed_set)
    then show "CustomTokenWithClaims P c clk uid devClaims = Inl (errReservedClaim k)"
      using assms uid by (simp add: CustomTokenWithClaims_def)
  next
    assume "2 \<le> card (dom devClaims \<inter> set reservedClaims)"
    then have "2 \<le> length (disallowedClaims devClaims)"
      using distinct_card [OF disallowed_distinct, of devClaims] by (simp add: disallowed_set)
    then show "CustomTokenWithClaims P c clk uid devClaims =
        Inl (errReservedClaims
               (strings_Join (filter (\<lambda>r. r \<in> dom devClaims) reservedClaims) '', ''))"
      using assms uid
      by (simp add: CustomTokenWithClaims_def Let_def disallowed_filter [symmetric])
  next
    assume "dom devClaims \<inter> set reservedClaims = {}"
    then have "disallowedClaims devClaims = []"
      using disallowed_set [of devClaims] by simp
    then show "CustomTokenWithClaims P c clk uid devClaims =
        jwtInfo_Token P (customTokenInfo iss uid (clk 0) devClaims) (signer c)"
      using assms uid by (simp add: CustomTokenWithClaims_def)
  qed
qed

lemma reserved_in_examples:
  "dom [''aud'' \<mapsto> ''x''] \<inter> set reservedClaims = {''aud''}"
  "dom [''sub'' \<mapsto> ''x'', ''admin'' \<mapsto> ''z'', ''aud'' \<mapsto> ''y''] \<inter> set reservedClaims =
     {''aud'', ''sub''}"
  "dom [''admin'' \<mapsto> ''yes''] \<inter> set reservedClaims = {}"
  by (auto simp: reservedClaims_def)

theorem reserved_claims_rejected_witness:
  "CustomTokenWithClaims test_package test_client test_clock ''alice'' [''aud'' \<mapsto> ''x''] =
     Inl (errReservedClaim ''aud'') \<and>
   CustomTokenWithClaims test_package test_client test_clock ''alice''
     [''sub'' \<mapsto> ''x'', ''admin'' \<mapsto> ''z'', ''aud'' \<mapsto> ''y''] =
     Inl (errReservedClaims ''aud, sub'') \<and>
   CustomTokenWithClaims test_package test_client test_clock ''alice'' [''admin'' \<mapsto> ''yes''] =
     Inr test_custom_token"
proof -
  have email: "Email (signer test_client) = Inr ''signer@example.com''"
    by (simp add: test_client_def test_signer_def)
  have len: "1 \<le> length ''alice''" "length ''alice'' \<le> 128"
    by simp_all
  note inst = reserved_claims_rejected [OF email len, where P = test_package and clk = test_clock]
  have "CustomTokenWithClaims test_package test_client test_clock ''alice'' [''aud'' \<mapsto> ''x''] =
      Inl (errReservedClaim ''aud'')"
    using inst [where devClaims = "[''aud'' \<mapsto> ''x'']" and k = "''aud''"]
      reserved_in_examples(1) by blast
  moreover have "CustomTokenWithClaims test_package test_client test_clock ''alice''
      [''sub'' \<mapsto> ''x'', ''admin'' \<mapsto> ''z'', ''aud'' \<mapsto> ''y''] =
      Inl (errReservedClaims ''aud, sub'')"
  proof -
    have "2 \<le> card (dom [''sub'' \<mapsto> ''x'', ''admin'' \<mapsto> ''z'', ''aud'' \<mapsto> ''y''] \<inter>
        set reservedClaims)"
      by (simp only: reserved_in_examples(2)) simp
    moreover have "strings_Join (filter (\<lambda>r. r \<in> dom
        [''sub'' \<mapsto> ''x'', ''admin'' \<mapsto> ''z'', ''aud'' \<mapsto> ''y'']) reservedClaims) '', '' =
        ''aud, sub''"
      by (simp add: reservedClaims_def)
    ultimately show ?thesis
      using inst [where devClaims = "[''sub'' \<mapsto> ''x'', ''admin'' \<mapsto> ''z'', ''aud'' \<mapsto> ''y'']"]
      by simp
  qed
  moreover have "CustomTokenWithClaims test_package test_client test_clock ''alice''
      [''admin'' \<mapsto> ''yes''] = Inr test_custom_token"
    using inst [where devClaims = "[''admin'' \<mapsto> ''yes'']"] reserved_in_examples(3)
      mint_test_custom_token by simp
  ultimately show ?thesis
    by blast
qed

text \<open>
  C7 as stated fails: with the empty uid, a claim map whose only reserved key is
  \<^verbatim>\<open>aud\<close> is answered with the uid error, which names no key.
\<close>

theorem reserved_claims_counterexample:
  "dom [''aud'' \<mapsto> ''x''] \<inter> set reservedClaims = {''aud''} \<and>
   CustomTokenWithClaims test_package test_client test_clock '''' [''aud'' \<mapsto> ''x''] =
     Inl (errors_New ''uid must be non-empty, and not longer than 128 characters'') \<and>
   CustomTokenWithClaims test_package test_client test_clock '''' [''aud'' \<mapsto> ''x''] \<noteq>
     Inl (errReservedClaim ''aud'')"
  using reserved_in_examples(1)
  by (simp add: CustomTokenWithClaims_def test_client_def test_signer_def errInvalidUID_def
      errReservedClaim_def)

text \<open>
  C8. For every successful mint, the payload that is encoded and signed has issuer and
  subject both equal to the signer's identity, the audience equal to the custom-token
  audience constant, issued-at equal to the clock's reading in seconds, and expiry
  equal to issued-at plus 3600 (the sum of Go's \<^verbatim>\<open>int64\<close>, which is the sum of the
  integers unless the clock reads within an hour of the largest \<^verbatim>\<open>int64\<close>). The
  header has the algorithm \<^verbatim>\<open>RS256\<close>, the type \<^verbatim>\<open>JWT\<close> and no key id; the payload
  carries the uid and the claim map unchanged.
\<close>

theorem minted_payload:
  assumes "CustomTokenWithClaims P c clk uid devClaims = Inr tok"
  shows "\<exists>iss info.
           Email (signer c) = Inr iss \<and>
           jwtInfo_Token P info (signer c) = Inr tok \<and>
           header info = \<lparr>Algorithm = ''RS256'', Type = ''JWT'', KeyID = ''''\<rparr> \<and>
           Iss (payload info) = iss \<and> Sub (payload info) = iss \<and>
           Aud (payload info) = firebaseAudience \<and>
           UID_ct (payload info) = uid \<and>
           Iat (payload info) = clk 0 \<and>
           Exp (payload info) = Iat (payload info) + 3600 \<and>
           (sint (clk 0) \<le> 9223372036854772207 \<longrightarrow>
              sint (Exp (payload info)) = sint (Iat (payload info)) + 3600) \<and>
           Claims_ct (payload info) = devClaims"
proof -
  obtain iss where iss: "Email (signer c) = Inr iss"
    using assms by (cases "Email (signer c)") (simp_all add: CustomTokenWithClaims_def)
  let ?info = "customTokenInfo iss uid (clk 0) devClaims"
  have "jwtInfo_Token P ?info (signer c) = Inr tok"
    using assms iss by (simp add: CustomTokenWithClaims_def Let_def split: if_splits)
  then show ?thesis
    using iss
    by (intro exI [of _ iss] exI [of _ ?info])
      (simp add: customTokenInfo_def tokenExpSeconds_def int64_plus_3600)
qed

theorem minted_payload_witness:
  "CustomTokenWithClaims test_package test_client test_clock ''alice'' [''admin'' \<mapsto> ''yes''] =
     Inr test_custom_token \<and>
   (\<exists>info.
      jwtInfo_Token test_package info (signer test_client) = Inr test_custom_token \<and>
      Iss (payload info) = ''signer@example.com'' \<and>
      Sub (payload info) = ''signer@example.com'' \<and>
      Aud (payload info) = firebaseAudience \<and>
      Iat (payload info) = 1700000000 \<and>
      Exp (payload info) = 1700003600)"
proof -
  obtain iss info where "Email (signer test_client) = Inr iss"
      and "jwtInfo_Token test_package info (signer test_client) = Inr test_custom_token"
      and "Iss (payload info) = iss" and "Sub (payload info) = iss"
      and "Aud (payload info) = firebaseAudience"
      and "Iat (payload info) = test_clock 0"
      and "Exp (payload info) = Iat (payload info) + 3600"
    using minted_payload [OF mint_test_custom_token] by blast
  then show ?thesis
    using mint_test_custom_token
    by (intro conjI exI [of _ info]) (simp_all add: test_client_def test_signer_def test_clock_def)
qed

subsection \<open>Verification\<close>

text \<open>
  C2. In \<^verbatim>\<open>VerifyIDToken\<close>, once the signature is verified and the header and the
  payload are decoded, the eight checks are made in the order (a) key id missing in the
  header, (b) header algorithm other than \<^verbatim>\<open>RS256\<close>, (c) audience other than the
  project id, (d) issuer other than the issuer prefix followed by the project id,
  (e) issued-at greater than the clock's time, (f) expiry less than the clock's time,
  (g) empty subject, (h) subject longer than 128 bytes. The error returned is that of
  the first check that fails; when none fails the token is returned, its \<^verbatim>\<open>UID\<close> set
  to the subject.
\<close>

theorem checks_in_order:
  assumes "decodeIDToken P c idToken = Inr (hdr, pl)"
  shows "VerifyIDToken P c clk idToken =
           (case firstFailure (semanticChecks c clk hdr pl) of
              Some err \<Rightarrow> Inl err
            | None \<Rightarrow> Inr (pl\<lparr>UID := Subject pl\<rparr>))"
  using assms by (simp add: VerifyIDToken_def checkClaims_def semanticChecks_def)

text \<open>On \<open>test_id_token\<close> no check fails. For the client of another project and long
  after the expiry, the checks (c), (d) and (f) all fail, and the error is that of (c).\<close>

theorem checks_in_order_witness:
  "decodeIDToken test_package test_client test_id_token = Inr (test_header, decoded_id_token) \<and>
   VerifyIDToken test_package test_client test_clock test_id_token =
     Inr (decoded_id_token\<lparr>UID := ''alice''\<rparr>) \<and>
   decodeIDToken test_package other_client test_id_token = Inr (test_header, decoded_id_token) \<and>
   VerifyIDToken test_package other_client late_clock test_id_token =
     Inl (errAudience ''other'' ''demo'')"
proof -
  have other: "decodeIDToken test_package other_client test_id_token =
      Inr (test_header, decoded_id_token)"
    by (simp add: decodeIDToken_other_client decode_test_id_token)
  have "VerifyIDToken test_package test_client test_clock test_id_token =
      Inr (decoded_id_token\<lparr>UID := ''alice''\<rparr>)"
    using checks_in_order [OF decode_test_id_token, of test_clock]
    by (simp add: semanticChecks_def test_client_def test_clock_def test_header_def
        decoded_id_token_def issuerPrefix_def)
  moreover have "VerifyIDToken test_package other_client late_clock test_id_token =
      Inl (errAudience ''other'' ''demo'')"
    using checks_in_order [OF other, of late_clock]
    by (simp add: semanticChecks_def other_client_def test_client_def test_header_def
        decoded_id_token_def)
  ultimately show ?thesis
    using decode_test_id_token other by blast
qed

text \<open>
  C3. When the signature check is reached (the project id is configured and the token
  string is not empty) and fails, \<^verbatim>\<open>VerifyIDToken\<close> returns the error of the signature
  check: the failure ends the decoding stage, so no segment is decoded and no claim is
  checked, whatever the decoders and the clock would answer.
\<close>

theorem signature_failure_is_final:
  assumes "projectID c \<noteq> ''''" and "idToken \<noteq> ''''"
      and "verifyToken P idToken (ks c) = Some err"
  shows "decodeIDToken P c idToken = Inl err \<and> VerifyIDToken P c clk idToken = Inl err"
  using assms by (simp add: VerifyIDToken_def decodeIDToken_def)

text \<open>\<open>forged_id_token\<close> differs from \<open>test_id_token\<close> in one byte of its signature.
  It is rejected with the error of the signature check, also where the checks of the
  audience, of the issuer and of the expiry would fail.\<close>

theorem signature_failure_is_final_witness:
  "projectID other_client \<noteq> '''' \<and> forged_id_token \<noteq> '''' \<and>
   verifyToken test_package forged_id_token (ks other_client) =
     Some (errors_New ''failed to verify token signature'') \<and>
   VerifyIDToken test_package other_client late_clock forged_id_token =
     Inl (errors_New ''failed to verify token signature'')"
proof -
  have pid: "projectID other_client \<noteq> ''''"
    by (simp add: other_client_def)
  have "ks other_client = ks test_client"
    by (simp add: other_client_def)
  then have sig: "verifyToken test_package forged_id_token (ks other_client) =
      Some (errors_New ''failed to verify token signature'')"
    by (simp add: test_package_def verify_forged_id_token)
  show ?thesis
    using signature_failure_is_final [OF pid nonempty_tokens(2) sig, of late_clock] pid sig
      nonempty_tokens(2)
    by simp
qed

text \<open>
  C5, as amended. In \<^verbatim>\<open>VerifyIDToken\<close>, for every token that reaches the claim checks
  (the project id is configured, the token string is not empty, the signature check
  succeeds, and the header and the payload decode) and whose decoded header has an
  empty key id: when the payload's audience is the custom-token audience constant, the
  error is \<^verbatim>\<open>expected an ID token but got a custom token\<close>; otherwise it is the error
  for a missing \<^verbatim>\<open>kid\<close> header.
\<close>

theorem missing_kid:
  assumes "decodeIDToken P c idToken = Inr (hdr, pl)" and "KeyID hdr = ''''"
  shows "VerifyIDToken P c clk idToken =
           Inl (if Audience pl = firebaseAudience then errCustomToken else errNoKeyID)"
  using assms by (simp add: VerifyIDToken_def checkClaims_def)

theorem missing_kid_witness:
  "KeyID custom_header = '''' \<and>
   VerifyIDToken test_package test_client test_clock test_custom_token = Inl errCustomToken \<and>
   VerifyIDToken test_package test_client test_clock unkeyed_id_token = Inl errNoKeyID"
  using missing_kid [OF decode_test_custom_token header_key_ids(2), of test_clock]
    missing_kid [OF decode_unkeyed_id_token header_key_ids(2), of test_clock]
  by (simp add: header_key_ids decoded_custom_token_def decoded_id_token_def
      firebaseAudience_def)

text \<open>
  C5 as stated fails: \<open>forged_custom_token\<close> has a header without key id and a
  payload with the custom-token audience, but its signature does not verify, and
  \<^verbatim>\<open>VerifyIDToken\<close> returns the error of the signature check (line 218) and not the
  custom-token error: the signature is checked before the key id is looked at.
\<close>

theorem missing_kid_counterexample:
  "decode_jwtHeader test_package (strings_Split forged_custom_token (CHR ''.'') ! 0) =
     Inr custom_header \<and>
   KeyID custom_header = '''' \<and>
   decode_Token test_package (strings_Split forged_custom_token (CHR ''.'') ! 1) =
     Inr (decoded_custom_token\<lparr>Claims := Map.empty\<rparr>) \<and>
   Audience (decoded_custom_token\<lparr>Claims := Map.empty\<rparr>) = firebaseAudience \<and>
   VerifyIDToken test_package test_client test_clock forged_custom_token =
     Inl (errors_New ''failed to verify token signature'') \<and>
   VerifyIDToken test_package test_client test_clock forged_custom_token \<noteq>
     Inl errCustomToken"
proof -
  have "verifyToken test_package forged_custom_token (ks test_client) =
      Some (errors_New ''failed to verify token signature'')"
    by (simp add: test_package_def verify_forged_custom_token)
  then have "VerifyIDToken test_package test_client test_clock forged_custom_token =
      Inl (errors_New ''failed to verify token signature'')"
    by (simp add: VerifyIDToken_def decodeIDToken_def nonempty_forged_custom_token
        test_client_def)
  then show ?thesis
    using header_forged_custom_token payload_forged_custom_token
    by (simp add: header_key_ids decoded_custom_token_def errCustomToken_def)
qed

text \<open>
  C9. For every token that \<^verbatim>\<open>VerifyIDToken\<close> accepts, the \<^verbatim>\<open>Claims\<close> map of the
  returned \<^verbatim>\<open>Token\<close> has none of the standard claim names \<^verbatim>\<open>iss\<close>, \<^verbatim>\<open>aud\<close>,
  \<^verbatim>\<open>exp\<close>, \<^verbatim>\<open>iat\<close>, \<^verbatim>\<open>sub\<close>, \<^verbatim>\<open>uid\<close> as a key, and on every other name it is the
  generic map decoded from the payload segment: only the custom claims are left.
\<close>

theorem custom_claims_only:
  assumes "VerifyIDToken P c clk idToken = Inr t"
  shows "(\<forall>r \<in> set standardClaims. Claims t r = None) \<and>
         (\<exists>seg1 claims.
            index (strings_Split idToken (CHR ''.'')) 1 = Inr seg1 \<and>
            decode_claims P seg1 = Inr claims \<and>
            (\<forall>k. k \<notin> set standardClaims \<longrightarrow> Claims t k = claims k))"
proof -
  obtain hdr pl where dec: "decodeIDToken P c idToken = Inr (hdr, pl)"
      and t: "t = pl\<lparr>UID := Subject pl\<rparr>"
    using assms by (auto simp: VerifyIDToken_def split: sum.splits option.splits)
  from dec obtain seg1 pl0 claims where
      seg1: "index (strings_Split idToken (CHR ''.'')) 1 = Inr seg1"
      and claims: "decode_claims P seg1 = Inr claims"
      and pl: "pl = pl0\<lparr>Claims := delete_all standardClaims claims\<rparr>"
    by (auto simp: decodeIDToken_def Let_def split: if_splits option.splits sum.splits)
  have "Claims t = (\<lambda>k. if k \<in> set standardClaims then None else claims k)"
    using t pl by (simp add: delete_all_eq)
  then show ?thesis
    using seg1 claims by auto
qed

theorem custom_claims_only_witness:
  "VerifyIDToken test_package test_client test_clock test_id_token =
     Inr (decoded_id_token\<lparr>UID := ''alice''\<rparr>) \<and>
   map (Claims (decoded_id_token\<lparr>UID := ''alice''\<rparr>)) standardClaims =
     [None, None, None, None, None, None] \<and>
   Claims (decoded_id_token\<lparr>UID := ''alice''\<rparr>) ''admin'' = Some ''yes'' \<and>
   Claims (decoded_id_token\<lparr>UID := ''alice''\<rparr>) ''auth_time'' = Some ''1699999000''"
proof -
  have "\<forall>r \<in> set standardClaims. Claims (decoded_id_token\<lparr>UID := ''alice''\<rparr>) r = None"
    using custom_claims_only [OF accept_test_id_token] by blast
  then have "map (Claims (decoded_id_token\<lparr>UID := ''alice''\<rparr>)) standardClaims =
      [None, None, None, None, None, None]"
    by (simp add: standardClaims_def)
  then show ?thesis
    using accept_test_id_token by (simp add: decoded_id_token_def)
qed

text \<open>
  C1, as amended. For every uid of length 1 to 128 and every claim map whose keys are
  disjoint from the reserved-claims set, when the signer's identity resolves and the
  encoder succeeds, \<^verbatim>\<open>CustomTokenWithClaims\<close> returns the encoded token, and
  \<^verbatim>\<open>VerifyIDToken\<close> never accepts that token. Provided that decoding is faithful to
  what was minted (the decoded header has the minted key id, which is empty, and the
  decoded payload has the minted audience, which is the custom-token audience),
  \<^verbatim>\<open>VerifyIDToken\<close> returns the error of the signature check or of the decoding when
  one of them fails, and otherwise the error \<^verbatim>\<open>expected an ID token but got a custom
  token\<close>.
\<close>

theorem minted_token_rejected:
  assumes "Email (signer c) = Inr iss" and "1 \<le> length uid" and "length uid \<le> 128"
      and "dom devClaims \<inter> set reservedClaims = {}"
      and "jwtInfo_Token P (customTokenInfo iss uid (clk 0) devClaims) (signer c) = Inr tok"
      and "\<And>hdr pl. decodeIDToken P c' tok = Inr (hdr, pl) \<Longrightarrow>
             KeyID hdr = KeyID (header (customTokenInfo iss uid (clk 0) devClaims)) \<and>
             Audience pl = Aud (payload (customTokenInfo iss uid (clk 0) devClaims))"
  shows "CustomTokenWithClaims P c clk uid devClaims = Inr tok \<and>
         VerifyIDToken P c' clk' tok =
           Inl (case decodeIDToken P c' tok of Inl err \<Rightarrow> err | Inr d \<Rightarrow> errCustomToken)"
proof
  have "uid \<noteq> []"
    using assms(2) by (cases uid) simp_all
  moreover have "disallowedClaims devClaims = []"
    using assms(4) disallowed_set [of devClaims] by simp
  ultimately show "CustomTokenWithClaims P c clk uid devClaims = Inr tok"
    using assms(1,3,5) by (simp add: CustomTokenWithClaims_def)
next
  show "VerifyIDToken P c' clk' tok =
      Inl (case decodeIDToken P c' tok of Inl err \<Rightarrow> err | Inr d \<Rightarrow> errCustomToken)"
  proof (cases "decodeIDToken P c' tok")
    case (Inl err)
    then show ?thesis
      by (simp add: VerifyIDToken_def)
  next
    case (Inr d)
    obtain hdr pl where d: "d = (hdr, pl)"
      by (cases d)
    with Inr assms(6) have "KeyID hdr = ''''" and "Audience pl = firebaseAudience"
      by (simp_all add: customTokenInfo_def)
    with Inr d show ?thesis
      by (simp add: VerifyIDToken_def checkClaims_def)
  qed
qed

theorem minted_token_rejected_witness:
  "CustomTokenWithClaims test_package test_client test_clock ''alice'' [''admin'' \<mapsto> ''yes''] =
     Inr test_custom_token \<and>
   decodeIDToken test_package test_client test_custom_token =
     Inr (custom_header, decoded_custom_token) \<and>
   VerifyIDToken test_package test_client late_clock test_custom_token = Inl errCustomToken"
proof -
  have email: "Email (signer test_client) = Inr ''signer@example.com''"
    by (simp add: test_client_def test_signer_def)
  have len: "1 \<le> length ''alice''" "length ''alice'' \<le> 128"
    by simp_all
  let ?info = "customTokenInfo ''signer@example.com'' ''alice'' (test_clock 0)
      [''admin'' \<mapsto> ''yes'']"
  have faithful: "KeyID hdr = KeyID (header ?info) \<and> Audience pl = Aud (payload ?info)"
    if "decodeIDToken test_package test_client test_custom_token = Inr (hdr, pl)" for hdr pl
  proof -
    from that have "hdr = custom_header" and "pl = decoded_custom_token"
      by (simp_all add: decode_test_custom_token)
    then show ?thesis
      by (simp add: customTokenInfo_def custom_header_def decoded_custom_token_def)
  qed
  have "CustomTokenWithClaims test_package test_client test_clock ''alice''
      [''admin'' \<mapsto> ''yes''] = Inr test_custom_token \<and>
    VerifyIDToken test_package test_client late_clock test_custom_token =
      Inl (case decodeIDToken test_package test_client test_custom_token of
             Inl err \<Rightarrow> err | Inr d \<Rightarrow> errCustomToken)"
    using minted_token_rejected [where P = test_package and c = test_client
        and c' = test_client and clk = test_clock and clk' = late_clock
        and uid = "''alice''" and devClaims = "[''admin'' \<mapsto> ''yes'']"
        and iss = "''signer@example.com''" and tok = test_custom_token,
        OF email len reserved_in_examples(3) encode_test_custom_token faithful]
    by blast
  then show ?thesis
    using decode_test_custom_token by simp
qed

text \<open>
  C1 as stated fails: the token minted for \<^verbatim>\<open>alice\<close> with the claim \<^verbatim>\<open>admin\<close>, whose
  signature the verifying client accepts, is rejected by \<^verbatim>\<open>VerifyIDToken\<close>.
\<close>

theorem mint_verify_counterexample:
  "length ''alice'' = 5 \<and>
   dom [''admin'' \<mapsto> ''yes''] \<inter> set reservedClaims = {} \<and>
   CustomTokenWithClaims test_package test_client test_clock ''alice'' [''admin'' \<mapsto> ''yes''] =
     Inr test_custom_token \<and>
   VerifyIDToken test_package test_client test_clock test_custom_token =
     Inl (fmt_Errorf ''expected an ID token but got a custom token'' [])"
  using reserved_in_examples(3)
  by (simp add: mint_test_custom_token VerifyIDToken_def decode_test_custom_token
      checkClaims_def custom_header_def decoded_custom_token_def errCustomToken_def)

subsection \<open>Revocation\<close>

text \<open>
  C4. For every token that \<^verbatim>\<open>VerifyIDToken\<close> accepts and whose user is found,
  \<^verbatim>\<open>VerifyIDTokenAndCheckRevoked\<close> returns the error \<^verbatim>\<open>ID token has been revoked\<close> if
  and only if the token's issued-at times 1000 is less than the user's
  \<^verbatim>\<open>TokensValidAfterMillis\<close>, and returns the token otherwise; a token whose issued-at
  times 1000 equals the cutoff is accepted. The product is Go's \<^verbatim>\<open>int64\<close> product and
  the comparison is signed; for an issued-at between -9223372036854775 and
  9223372036854775 seconds that is the product and the order of the integers.
\<close>

theorem revoked_iff:
  assumes "VerifyIDToken P c clk idToken = Inr p"
      and "GetUser P c (UID p) = Inr user"
  shows "(VerifyIDTokenAndCheckRevoked P c clk idToken = Inl (errRevoked (idTokenRevoked P))
            \<longleftrightarrow> IssuedAt p * 1000 <s TokensValidAfterMillis user) \<and>
         (\<not> IssuedAt p * 1000 <s TokensValidAfterMillis user
            \<longrightarrow> VerifyIDTokenAndCheckRevoked P c clk idToken = Inr p) \<and>
         (IssuedAt p * 1000 = TokensValidAfterMillis user
            \<longrightarrow> VerifyIDTokenAndCheckRevoked P c clk idToken = Inr p) \<and>
         (- 9223372036854775 \<le> sint (IssuedAt p) \<and> sint (IssuedAt p) \<le> 9223372036854775
            \<longrightarrow> (IssuedAt p * 1000 <s TokensValidAfterMillis user
                   \<longleftrightarrow> sint (IssuedAt p) * 1000 < sint (TokensValidAfterMillis user)))"
  using assms
  by (simp add: VerifyIDTokenAndCheckRevoked_def word_sless_alt int64_times_1000)

text \<open>\<open>test_id_token\<close> was issued at 1699999000. Against the cutoff 1699999500000 of
  the user table it is revoked; against a cutoff of 1699999000000 it is accepted.\<close>

theorem revoked_iff_witness:
  "VerifyIDToken test_package test_client test_clock test_id_token =
     Inr (decoded_id_token\<lparr>UID := ''alice''\<rparr>) \<and>
   GetUser test_package test_client ''alice'' = Inr \<lparr>TokensValidAfterMillis = 1699999500000\<rparr> \<and>
   VerifyIDTokenAndCheckRevoked test_package test_client test_clock test_id_token =
     Inl (errRevoked ''id-token-revoked'') \<and>
   GetUser boundary_package test_client ''alice'' =
     Inr \<lparr>TokensValidAfterMillis = 1699999000000\<rparr> \<and>
   VerifyIDTokenAndCheckRevoked boundary_package test_client test_clock test_id_token =
     Inr (decoded_id_token\<lparr>UID := ''alice''\<rparr>)"
proof -
  let ?t = "decoded_id_token\<lparr>UID := ''alice''\<rparr>"
  have user: "GetUser test_package test_client (UID ?t) =
      Inr \<lparr>TokensValidAfterMillis = 1699999500000\<rparr>"
    by (simp add: test_package_def test_GetUser_def)
  have accept': "VerifyIDToken boundary_package test_client test_clock test_id_token = Inr ?t"
    by (simp add: VerifyIDToken_boundary_package accept_test_id_token)
  have user': "GetUser boundary_package test_client (UID ?t) =
      Inr \<lparr>TokensValidAfterMillis = 1699999000000\<rparr>"
    by (simp add: boundary_package_def)
  have "VerifyIDTokenAndCheckRevoked test_package test_client test_clock test_id_token =
      Inl (errRevoked ''id-token-revoked'')"
    using revoked_iff [OF accept_test_id_token user]
    by (simp add: decoded_id_token_def test_package_def)
  moreover have "VerifyIDTokenAndCheckRevoked boundary_package test_client test_clock
      test_id_token = Inr ?t"
    using revoked_iff [OF accept' user']
    by (simp add: decoded_id_token_def)
  ultimately show ?thesis
    using accept_test_id_token user user' by simp
qed

end
